theory Spec2Isabelle
  imports Main "HOL-Library.AList"
begin

section \<open>Strings\<close>

text \<open>
  A Python string is modelled as a \<^typ>\<open>string\<close> whose characters are the code points
  0 to 255. The functions below are the string methods that \<^verbatim>\<open>ai_engine.py\<close> calls.
\<close>

text \<open>\<^verbatim>\<open>str.isspace\<close> on one character: the white space of the code points 0 to 255.\<close>

definition py_space :: "char \<Rightarrow> bool" where
  "py_space c \<longleftrightarrow>
     (let n = (of_char c :: nat)
      in (9 \<le> n \<and> n \<le> 13) \<or> (28 \<le> n \<and> n \<le> 32) \<or> n = 133 \<or> n = 160)"

text \<open>\<^verbatim>\<open>s.strip()\<close>\<close>

definition py_strip :: "string \<Rightarrow> string" where
  "py_strip s = rev (dropWhile py_space (rev (dropWhile py_space s)))"

text \<open>\<^verbatim>\<open>s.startswith(p)\<close> and \<^verbatim>\<open>s.endswith(p)\<close>\<close>

definition startswith :: "string \<Rightarrow> string \<Rightarrow> bool" where
  "startswith s p \<longleftrightarrow> take (length p) s = p"

definition endswith :: "string \<Rightarrow> string \<Rightarrow> bool" where
  "endswith s p \<longleftrightarrow> length p \<le> length s \<and> drop (length s - length p) s = p"

text \<open>\<^verbatim>\<open>s.lower()\<close>: the letters A to Z and the capital letters of the range 192 to 222.\<close>

definition py_lower_char :: "char \<Rightarrow> char" where
  "py_lower_char c =
     (let n = (of_char c :: nat)
      in if (65 \<le> n \<and> n \<le> 90) \<or> (192 \<le> n \<and> n \<le> 222 \<and> n \<noteq> 215)
         then char_of (n + 32) else c)"

definition py_lower :: "string \<Rightarrow> string" where
  "py_lower s = map py_lower_char s"

text \<open>\<^verbatim>\<open>sep.join(xs)\<close>\<close>

fun py_join :: "string \<Rightarrow> string list \<Rightarrow> string" where
  "py_join sep [] = []"
| "py_join sep [x] = x"
| "py_join sep (x # y # ys) = x @ sep @ py_join sep (y # ys)"

text \<open>
  \<^verbatim>\<open>s.replace(old, new)\<close> without a count: the occurrences of \<open>old\<close> are found from
  left to right, without overlap, and every one of them is replaced.
\<close>

function py_replace :: "string \<Rightarrow> string \<Rightarrow> string \<Rightarrow> string" where
  "py_replace old new [] = (if old = [] then new else [])"
| "py_replace old new (c # cs) =
     (if old = [] then new @ c # py_replace old new cs
      else if startswith (c # cs) old then new @ py_replace old new (drop (length old) (c # cs))
      else c # py_replace old new cs)"
  by pat_completeness auto

termination
  by (relation "measure (\<lambda>(old, new, s). length s)") (auto simp: neq_Nil_conv)

section \<open>Decoded JSON values\<close>

text \<open>
  What \<^verbatim>\<open>json.loads\<close> returns: \<^verbatim>\<open>None\<close>, a \<^verbatim>\<open>bool\<close>, an \<^verbatim>\<open>int\<close>, a \<^verbatim>\<open>float\<close>,
  a \<^verbatim>\<open>str\<close>, a \<^verbatim>\<open>list\<close> or a \<^verbatim>\<open>dict\<close>. A float is kept as the decimal numeral it was
  read from: \<open>Dec neg m e\<close> is the double nearest to \<open>m * 10^e\<close>, negated when \<open>neg\<close>.
  A dictionary is an association list in insertion order, with one entry for each key.
\<close>

datatype pyfloat = Dec bool nat int | NaN | Infinity bool

datatype json =
    JNull
  | JBool bool
  | JInt int
  | JFloat pyfloat
  | JStr string
  | JArr "json list"
  | JObj "(string \<times> json) list"

text \<open>
  The double nearest to \<open>m * 10^e\<close> is zero exactly when \<open>m * 10^e\<close> is at most \<open>2^-1075\<close>,
  half of the smallest positive double.
\<close>

fun float_is_zero :: "pyfloat \<Rightarrow> bool" where
  "float_is_zero (Dec neg m e) \<longleftrightarrow> m = 0 \<or> (e < 0 \<and> m * 2 ^ 1075 \<le> 10 ^ nat (- e))"
| "float_is_zero NaN \<longleftrightarrow> False"
| "float_is_zero (Infinity neg) \<longleftrightarrow> False"

text \<open>The truth value of a decoded value, as \<^verbatim>\<open>not parsed\<close> tests it.\<close>

fun truthy :: "json \<Rightarrow> bool" where
  "truthy JNull \<longleftrightarrow> False"
| "truthy (JBool b) \<longleftrightarrow> b"
| "truthy (JInt i) \<longleftrightarrow> i \<noteq> 0"
| "truthy (JFloat f) \<longleftrightarrow> \<not> float_is_zero f"
| "truthy (JStr s) \<longleftrightarrow> s \<noteq> []"
| "truthy (JArr vs) \<longleftrightarrow> vs \<noteq> []"
| "truthy (JObj kvs) \<longleftrightarrow> kvs \<noteq> []"

text \<open>The name of a value's type, as it appears in the message of an \<^verbatim>\<open>AttributeError\<close>.\<close>

fun type_name :: "json \<Rightarrow> string" where
  "type_name JNull = ''NoneType''"
| "type_name (JBool b) = ''bool''"
| "type_name (JInt i) = ''int''"
| "type_name (JFloat f) = ''float''"
| "type_name (JStr s) = ''str''"
| "type_name (JArr vs) = ''list''"
| "type_name (JObj kvs) = ''dict''"

section \<open>The strict JSON decoder\<close>

text \<open>
  \<^verbatim>\<open>json.loads\<close> belongs to the standard library, not to the repository. The model follows
  its scanner: each function takes the text from the current index on and returns the
  decoded value with the number of characters it read; \<open>None\<close> is \<^verbatim>\<open>JSONDecodeError\<close>.
  An escape \<^verbatim>\<open>\uXXXX\<close> above 255 denotes a character outside this string model and is
  decoded to a question mark. The interpreter's limits on nesting depth and on the
  number of digits of an integer are not modelled.
\<close>

definition json_ws :: "char \<Rightarrow> bool" where
  "json_ws c \<longleftrightarrow> c = CHR '' '' \<or> c = CHR 0x09 \<or> c = CHR 0x0A \<or> c = CHR 0x0D"

definition ws_len :: "string \<Rightarrow> nat" where
  "ws_len s = length (takeWhile json_ws s)"

definition is_digit :: "char \<Rightarrow> bool" where
  "is_digit c \<longleftrightarrow> (let n = (of_char c :: nat) in 48 \<le> n \<and> n \<le> 57)"

definition dec_val :: "string \<Rightarrow> nat" where
  "dec_val ds = foldl (\<lambda>a d. 10 * a + (of_char d - 48)) 0 ds"

definition hex_val :: "char \<Rightarrow> nat option" where
  "hex_val c =
     (let n = (of_char c :: nat)
      in if 48 \<le> n \<and> n \<le> 57 then Some (n - 48)
         else if 65 \<le> n \<and> n \<le> 70 then Some (n - 55)
         else if 97 \<le> n \<and> n \<le> 102 then Some (n - 87)
         else None)"

fun hex4 :: "string \<Rightarrow> nat option" where
  "hex4 (a # b # c # d # _) =
     (case (hex_val a, hex_val b, hex_val c, hex_val d) of
        (Some w, Some x, Some y, Some z) \<Rightarrow> Some (((w * 16 + x) * 16 + y) * 16 + z)
      | _ \<Rightarrow> None)"
| "hex4 _ = None"

definition uni_char :: "nat \<Rightarrow> char" where
  "uni_char n = (if n < 256 then char_of n else CHR ''?'')"

definition backslash :: "char \<Rightarrow> char option" where
  "backslash e =
     (if e = CHR 0x22 then Some (CHR 0x22)
      else if e = CHR 0x5C then Some (CHR 0x5C)
      else if e = CHR ''/'' then Some (CHR ''/'')
      else if e = CHR ''b'' then Some (CHR 0x08)
      else if e = CHR ''f'' then Some (CHR 0x0C)
      else if e = CHR ''n'' then Some (CHR 0x0A)
      else if e = CHR ''r'' then Some (CHR 0x0D)
      else if e = CHR ''t'' then Some (CHR 0x09)
      else None)"

text \<open>
  Whether the four hexadecimal digits at the start of \<open>r\<close> are followed by the escape
  of a low surrogate.
\<close>

definition low_follows :: "string \<Rightarrow> bool" where
  "low_follows r \<longleftrightarrow>
     take 2 (drop 4 r) = [CHR 0x5C, CHR ''u'']
     \<and> (case hex4 (drop 6 r) of Some l \<Rightarrow> 0xDC00 \<le> l \<and> l \<le> 0xDFFF | None \<Rightarrow> False)"

text \<open>
  The text after an opening quote: the decoded string and the number of characters up to
  and including the closing quote. A control character below 32 is an error, a high
  surrogate followed by a low surrogate is one character.
\<close>

fun scanstring :: "string \<Rightarrow> (string \<times> nat) option" where
  "scanstring [] = None"
| "scanstring (c # cs) =
     (if c = CHR 0x22 then Some ([], 1)
      else if c = CHR 0x5C then
        (case cs of
           [] \<Rightarrow> None
         | e # r \<Rightarrow>
             if e = CHR ''u'' then
               (case hex4 r of
                  None \<Rightarrow> None
                | Some u \<Rightarrow>
                    if 0xD800 \<le> u \<and> u \<le> 0xDBFF \<and> low_follows r
                    then (case scanstring (drop 10 r) of
                            None \<Rightarrow> None
                          | Some (t, n) \<Rightarrow> Some (CHR ''?'' # t, n + 12))
                    else (case scanstring (drop 4 r) of
                            None \<Rightarrow> None
                          | Some (t, n) \<Rightarrow> Some (uni_char u # t, n + 6)))
             else
               (case backslash e of
                  None \<Rightarrow> None
                | Some ch \<Rightarrow>
                    (case scanstring r of
                       None \<Rightarrow> None
                     | Some (t, n) \<Rightarrow> Some (ch # t, n + 2))))
      else if (of_char c :: nat) < 32 then None
      else (case scanstring cs of
              None \<Rightarrow> None
            | Some (t, n) \<Rightarrow> Some (c # t, n + 1)))"

text \<open>
  A number: an optional minus sign, the integer part (a single 0, or a digit from 1 to 9
  and more digits), an optional fraction (a point and at least one digit) and an optional
  exponent (e or E, an optional sign, at least one digit). The three functions below give
  the number of characters of each part at the start of a text, 0 when the part is
  absent.
\<close>

definition int_len :: "string \<Rightarrow> nat" where
  "int_len s =
     (case s of
        [] \<Rightarrow> 0
      | d # ds \<Rightarrow>
          if d = CHR ''0'' then 1
          else if is_digit d then Suc (length (takeWhile is_digit ds))
          else 0)"

definition frac_len :: "string \<Rightarrow> nat" where
  "frac_len s =
     (case s of
        p # d # ds \<Rightarrow>
          if p = CHR ''.'' \<and> is_digit d then Suc (Suc (length (takeWhile is_digit ds))) else 0
      | _ \<Rightarrow> 0)"

definition sign_len :: "string \<Rightarrow> nat" where
  "sign_len r = (if take 1 r = ''-'' \<or> take 1 r = ''+'' then 1 else 0)"

definition exp_len :: "string \<Rightarrow> nat" where
  "exp_len s =
     (case s of
        [] \<Rightarrow> 0
      | e # r \<Rightarrow>
          if e = CHR ''e'' \<or> e = CHR ''E'' then
            (let k = sign_len r;
                 ds = length (takeWhile is_digit (drop k r))
             in if ds = 0 then 0 else Suc (k + ds))
          else 0)"

text \<open>The value of an exponent part: of the text after the e, with its optional sign.\<close>

definition exp_val :: "string \<Rightarrow> int" where
  "exp_val r =
     (if take 1 r = ''-'' then - int (dec_val (drop 1 r))
      else if take 1 r = ''+'' then int (dec_val (drop 1 r))
      else int (dec_val r))"

text \<open>
  With neither fraction nor exponent the number is an \<^verbatim>\<open>int\<close>, otherwise a \<^verbatim>\<open>float\<close>;
  the value is read from the characters of the parts.
\<close>

definition match_number :: "string \<Rightarrow> (json \<times> nat) option" where
  "match_number s =
     (let k = (if take 1 s = ''-'' then 1 else 0);
          a = int_len (drop k s)
      in if a = 0 then None
         else
           let b = frac_len (drop (k + a) s);
               c = exp_len (drop (k + a + b) s);
               ip = take a (drop k s);
               fp = take (b - 1) (drop (Suc (k + a)) s);
               ep = take (c - 1) (drop (Suc (k + a + b)) s)
           in if b = 0 \<and> c = 0
              then Some (JInt (if k = 1 then - int (dec_val ip) else int (dec_val ip)), k + a)
              else Some (JFloat (Dec (k = 1) (dec_val (ip @ fp)) (exp_val ep - int (length fp))),
                         k + a + b + c))"

text \<open>A constant or a number, when the text starts with neither a quote nor a bracket.\<close>

definition scan_literal :: "string \<Rightarrow> (json \<times> nat) option" where
  "scan_literal s =
     (if take 4 s = ''null'' then Some (JNull, 4)
      else if take 4 s = ''true'' then Some (JBool True, 4)
      else if take 5 s = ''false'' then Some (JBool False, 5)
      else if take 3 s = ''NaN'' then Some (JFloat NaN, 3)
      else if take 8 s = ''Infinity'' then Some (JFloat (Infinity False), 8)
      else if take 9 s = ''-Infinity'' then Some (JFloat (Infinity True), 9)
      else match_number s)"

text \<open>
  The scanner proper. \<open>parse_object\<close> and \<open>parse_array\<close> take the text after the opening
  bracket; \<open>parse_members\<close> and \<open>parse_elems\<close> are their loops, with the entries read so
  far. A key that occurs again replaces the value of its first occurrence.
\<close>

function scan_once :: "string \<Rightarrow> (json \<times> nat) option"
  and parse_object :: "string \<Rightarrow> ((string \<times> json) list \<times> nat) option"
  and parse_members ::
    "string \<Rightarrow> (string \<times> json) list \<Rightarrow> ((string \<times> json) list \<times> nat) option"
  and parse_array :: "string \<Rightarrow> (json list \<times> nat) option"
  and parse_elems :: "string \<Rightarrow> json list \<Rightarrow> (json list \<times> nat) option"
where
  "scan_once s =
     (case s of
        [] \<Rightarrow> None
      | c # cs \<Rightarrow>
          if c = CHR 0x22 then
            (case scanstring cs of None \<Rightarrow> None | Some (t, n) \<Rightarrow> Some (JStr t, Suc n))
          else if c = CHR ''{'' then
            (case parse_object cs of None \<Rightarrow> None | Some (kvs, n) \<Rightarrow> Some (JObj kvs, Suc n))
          else if c = CHR ''['' then
            (case parse_array cs of None \<Rightarrow> None | Some (vs, n) \<Rightarrow> Some (JArr vs, Suc n))
          else scan_literal s)"
| "parse_object s =
     (let i = ws_len s; r = drop i s
      in if take 1 r = ''}'' then Some ([], Suc i)
         else (case parse_members r [] of
                 None \<Rightarrow> None
               | Some (kvs, n) \<Rightarrow> Some (kvs, i + n)))"
| "parse_members r acc =
     (case r of
        [] \<Rightarrow> None
      | q # r1 \<Rightarrow>
          if q \<noteq> CHR 0x22 then None
          else
            (case scanstring r1 of
               None \<Rightarrow> None
             | Some (key, n1) \<Rightarrow>
                 let r2 = drop n1 r1; i2 = ws_len r2; r3 = drop i2 r2
                 in if take 1 r3 \<noteq> '':'' then None
                    else
                      let r4 = drop 1 r3; i4 = ws_len r4; r5 = drop i4 r4
                      in (case scan_once r5 of
                            None \<Rightarrow> None
                          | Some (v, n5) \<Rightarrow>
                              let r6 = drop n5 r5; i6 = ws_len r6; r7 = drop i6 r6;
                                  acc' = AList.update key v acc;
                                  used = Suc n1 + i2 + 1 + i4 + n5 + i6
                              in if take 1 r7 = ''}'' then Some (acc', Suc used)
                                 else if take 1 r7 \<noteq> '','' then None
                                 else
                                   let r8 = drop 1 r7; i8 = ws_len r8
                                   in (case parse_members (drop i8 r8) acc' of
                                         None \<Rightarrow> None
                                       | Some (kvs, n) \<Rightarrow> Some (kvs, Suc used + i8 + n)))))"
| "parse_array s =
     (let i = ws_len s; r = drop i s
      in if take 1 r = '']'' then Some ([], Suc i)
         else (case parse_elems r [] of
                 None \<Rightarrow> None
               | Some (vs, n) \<Rightarrow> Some (vs, i + n)))"
| "parse_elems r acc =
     (case scan_once r of
        None \<Rightarrow> None
      | Some (v, n1) \<Rightarrow>
          let r2 = drop n1 r; i2 = ws_len r2; r3 = drop i2 r2;
              acc' = acc @ [v]; used = n1 + i2
          in if take 1 r3 = '']'' then Some (acc', Suc used)
             else if take 1 r3 \<noteq> '','' then None
             else
               let r4 = drop 1 r3; i4 = ws_len r4
               in (case parse_elems (drop i4 r4) acc' of
                     None \<Rightarrow> None
                   | Some (vs, n) \<Rightarrow> Some (vs, Suc used + i4 + n)))"
  by pat_completeness auto

termination
  apply (relation "measure (\<lambda>x. case x of
            Inl (Inl s) \<Rightarrow> 3 * length s
          | Inl (Inr s) \<Rightarrow> 3 * length s + 2
          | Inr (Inl (s, _)) \<Rightarrow> 3 * length s + 1
          | Inr (Inr (Inl s)) \<Rightarrow> 3 * length s + 2
          | Inr (Inr (Inr (s, _))) \<Rightarrow> 3 * length s + 1)")
  apply (auto simp: ws_len_def dest!: arg_cong [where f = length])
  done

declare scan_once.simps [simp del] parse_object.simps [simp del] parse_members.simps [simp del]
  parse_array.simps [simp del] parse_elems.simps [simp del]

text \<open>
  \<^verbatim>\<open>json.loads(s)\<close>: white space, one value, white space, and nothing more.
\<close>

definition json_loads :: "string \<Rightarrow> json option" where
  "json_loads s =
     (let r = drop (ws_len s) s
      in case scan_once r of
           None \<Rightarrow> None
         | Some (v, n) \<Rightarrow>
             let r' = drop n r in if drop (ws_len r') r' = [] then Some v else None)"

section \<open>The module state and its environment\<close>

text \<open>
  The global \<^verbatim>\<open>ai_status\<close> dictionary, with its keys \<^verbatim>\<open>state\<close> and \<^verbatim>\<open>message\<close>.
\<close>

record status =
  state :: string
  message :: string

text \<open>
  An exception with the text that \<^verbatim>\<open>str(e)\<close> gives. The retry loop tells
  \<^verbatim>\<open>requests.exceptions.RequestException\<close> from every other \<^verbatim>\<open>Exception\<close>.
\<close>

datatype exn = RequestException string | OtherException string

fun exn_str :: "exn \<Rightarrow> string" where
  "exn_str (RequestException m) = m"
| "exn_str (OtherException m) = m"

text \<open>
  One record of the log file: which logging call wrote it, with the values that call
  formats into its message. \<open>StatusUpdated\<close> is the record that \<^verbatim>\<open>set_ai_status\<close> writes
  for every update, so the status updates of a call can be read off the log.
\<close>

datatype log_record =
    StatusUpdated string string
  | InitFailed exn
  | RawResponse string
  | ParsedJson json
  | FinalCode string
  | NetworkError exn
  | ApiError exn
  | DecodeErrorCleaned string
  | DecodeErrorRegex string
  | NoJsonFound string
  | OptimizationFailed exn

text \<open>
  Everything the module changes: the status, the log file, the lines printed, the
  durations passed to \<^verbatim>\<open>time.sleep\<close> in order, and the number of completion requests
  sent to the remote service so far.
\<close>

record world =
  ai_status :: status
  log_records :: "log_record list"
  stdout :: "string list"
  slept :: "nat list"
  completions :: nat

text \<open>What \<^verbatim>\<open>model.generate_content(...).text\<close> gives: the reply text, or an exception.\<close>

datatype outcome = Reply string | Raise exn

text \<open>
  The world outside the module. \<open>configure\<close> is the initialisation of the remote client
  with the credential (\<^verbatim>\<open>genai.configure\<close> and \<^verbatim>\<open>genai.GenerativeModel\<close>): the exception
  it raises, if any. \<open>generate_content\<close> answers a completion request; it is given the
  number of requests sent before, so that each attempt may be answered differently.
  \<open>str_of\<close> is Python's \<^verbatim>\<open>str()\<close> on a decoded value that is not a string.
\<close>

record env =
  configure :: "string option \<Rightarrow> exn option"
  generate_content :: "nat \<Rightarrow> string \<Rightarrow> outcome"
  str_of :: "json \<Rightarrow> string"

definition log_append :: "log_record list \<Rightarrow> world \<Rightarrow> world" where
  "log_append rs w = w\<lparr>log_records := log_records w @ rs\<rparr>"

definition set_ai_status :: "string \<Rightarrow> string \<Rightarrow> world \<Rightarrow> world" where
  "set_ai_status st msg w =
     log_append [StatusUpdated st msg] (w\<lparr>ai_status := \<lparr>state = st, message = msg\<rparr>\<rparr>)"

definition sleep :: "nat \<Rightarrow> world \<Rightarrow> world" where
  "sleep d w = w\<lparr>slept := slept w @ [d]\<rparr>"

definition print :: "string \<Rightarrow> world \<Rightarrow> world" where
  "print line w = w\<lparr>stdout := stdout w @ [line]\<rparr>"

section \<open>\<^verbatim>\<open>extract_json\<close>\<close>

text \<open>
  The first lines of \<^verbatim>\<open>extract_json\<close>: the response is stripped, a leading
  \<^verbatim>\<open>```json\<close> and a trailing \<^verbatim>\<open>```\<close> are cut off, each followed by another strip.
\<close>

definition clean_response :: "string \<Rightarrow> string" where
  "clean_response response =
     (let c0 = py_strip response;
          c1 = (if startswith c0 ''```json'' then py_strip (drop (length ''```json'') c0) else c0)
      in if endswith c1 ''```'' then py_strip (take (length c1 - length ''```'') c1) else c1)"

text \<open>
  \<^verbatim>\<open>re.search(r'\{.*\}', s, re.DOTALL)\<close> and its \<^verbatim>\<open>group(0)\<close>: the text from the first
  opening brace to the last closing brace after it, if there is one.
\<close>

definition brace_span :: "string \<Rightarrow> string option" where
  "brace_span s =
     (let t = dropWhile (\<lambda>c. c \<noteq> CHR ''{'') s
      in if t = [] then None
         else
           let u = rev (dropWhile (\<lambda>c. c \<noteq> CHR ''}'') (rev (tl t)))
           in if u = [] then None else Some (CHR ''{'' # u))"

text \<open>
  The value returned, where \<open>JNull\<close> is Python's \<^verbatim>\<open>None\<close>, and the records written to
  the log.
\<close>

definition extract_json :: "string \<Rightarrow> json \<times> log_record list" where
  "extract_json response =
     (let cleaned = clean_response response
      in case json_loads cleaned of
           Some parsed_json \<Rightarrow> (parsed_json, [])
         | None \<Rightarrow>
             (case brace_span cleaned of
                Some m \<Rightarrow>
                  (case json_loads m of
                     Some v \<Rightarrow> (v, [DecodeErrorCleaned cleaned])
                   | None \<Rightarrow> (JNull, [DecodeErrorCleaned cleaned, DecodeErrorRegex m]))
              | None \<Rightarrow> (JNull, [DecodeErrorCleaned cleaned, NoJsonFound response])))"

section \<open>\<^verbatim>\<open>generate_code_from_prompt\<close>\<close>

definition formatted_prompt :: "string \<Rightarrow> string" where
  \<open>formatted_prompt prompt =
     ''You are a helpful assistant that writes complete frontend apps.\<newline>''
     @ ''Given the task: "'' @ prompt @ ''"\<newline>''
     @ ''Respond ONLY in this JSON format, with no additional text, markdown, or explanation before or after the JSON:\<newline>''
     @ ''{\<newline>''
     @ ''  "html": "<html>...</html>",\<newline>''
     @ ''  "css": "body { ... }",\<newline>''
     @ ''  "js": "document.addEventListener(...)",\<newline>''
     @ ''  "name": "App Name"\<newline>''
     @ ''}''\<close>

definition unavailable_document :: string where
  "unavailable_document =
     ''<!DOCTYPE html><html><head><title>Error</title><style></style></head><body><h1>AI service is currently unavailable.</h1></body></html>''"

definition could_not_parse_document :: string where
  "could_not_parse_document =
     ''<!DOCTYPE html><html><head><title>Error</title><style></style></head><body><h1>Could not parse AI response.</h1><script></script></body></html>''"

text \<open>
  \<^verbatim>\<open>AttributeError\<close>, which calling a method that the value's type does not have raises.
\<close>

definition attribute_error :: "json \<Rightarrow> string \<Rightarrow> exn" where
  "attribute_error v attr =
     OtherException
       ([CHR 0x27] @ type_name v @ [CHR 0x27] @ '' object has no attribute ''
        @ [CHR 0x27] @ attr @ [CHR 0x27])"

text \<open>\<^verbatim>\<open>parsed.get(key, default)\<close>: only a dictionary has the method.\<close>

definition py_get :: "json \<Rightarrow> string \<Rightarrow> json \<Rightarrow> exn + json" where
  "py_get parsed key dflt =
     (case parsed of
        JObj kvs \<Rightarrow> Inr (case map_of kvs key of Some v \<Rightarrow> v | None \<Rightarrow> dflt)
      | _ \<Rightarrow> Inl (attribute_error parsed ''get''))"

text \<open>A value inside an f-string: a string as it is, any other value through \<^verbatim>\<open>str()\<close>.\<close>

definition fmt :: "env \<Rightarrow> json \<Rightarrow> string" where
  "fmt env v = (case v of JStr s \<Rightarrow> s | _ \<Rightarrow> str_of env v)"

text \<open>
  The three \<^verbatim>\<open>get\<close> calls and the two \<^verbatim>\<open>replace\<close> calls that build \<^verbatim>\<open>final_code\<close>;
  only a string has \<^verbatim>\<open>replace\<close>.
\<close>

definition inline_code :: "env \<Rightarrow> json \<Rightarrow> exn + string" where
  "inline_code env parsed =
     (case py_get parsed ''html'' (JStr []) of
        Inl e \<Rightarrow> Inl e
      | Inr html \<Rightarrow>
          (case py_get parsed ''css'' (JStr []) of
             Inl e \<Rightarrow> Inl e
           | Inr css \<Rightarrow>
               (case py_get parsed ''js'' (JStr []) of
                  Inl e \<Rightarrow> Inl e
                | Inr js \<Rightarrow>
                    (case html of
                       JStr h \<Rightarrow>
                         Inr (py_replace ''</body>'' (''<script>'' @ fmt env js @ ''</script></body>'')
                                (py_replace ''</head>'' (''<style>'' @ fmt env css @ ''</style></head>'') h))
                     | _ \<Rightarrow> Inl (attribute_error html ''replace'')))))"

text \<open>
  The body of the \<^verbatim>\<open>try\<close> statement of one attempt: \<open>Inr\<close> is the string it returns,
  \<open>Inl\<close> the exception it raises.
\<close>

definition try_attempt :: "env \<Rightarrow> string \<Rightarrow> world \<Rightarrow> (exn + string) \<times> world" where
  "try_attempt env formatted w =
     (let w1 = set_ai_status ''generating'' ''Generating code...'' w;
          w2 = w1\<lparr>completions := Suc (completions w1)\<rparr>
      in case generate_content env (completions w1) formatted of
           Raise e \<Rightarrow> (Inl e, w2)
         | Reply response \<Rightarrow>
             (let w3 = log_append [RawResponse response] w2;
                  parsed = fst (extract_json response);
                  w4 = log_append (snd (extract_json response) @ [ParsedJson parsed]) w3
              in if \<not> truthy parsed
                 then (Inr could_not_parse_document,
                       set_ai_status ''error'' ''Could not parse AI response.'' w4)
                 else
                   let w5 = set_ai_status ''online'' ''AI service is online.'' w4
                   in (case inline_code env parsed of
                         Inl e \<Rightarrow> (Inl e, w5)
                       | Inr final_code \<Rightarrow>
                           (Inr final_code, log_append [FinalCode (take 500 final_code)] w5))))"

text \<open>The two \<^verbatim>\<open>except\<close> clauses.\<close>

fun on_exception :: "exn \<Rightarrow> world \<Rightarrow> world" where
  "on_exception (RequestException m) w =
     log_append [NetworkError (RequestException m)]
       (set_ai_status ''offline'' ''Network error, AI service is offline.'' w)"
| "on_exception (OtherException m) w =
     log_append [ApiError (OtherException m)]
       (set_ai_status ''error'' (''AI service error: '' @ m) w)"

text \<open>
  The \<^verbatim>\<open>for\<close> loop over \<^verbatim>\<open>range(retries + 1)\<close>, with the number of iterations left, the
  value of \<^verbatim>\<open>attempt\<close> and of \<^verbatim>\<open>last_exception\<close>, and the two statements after the loop.
\<close>

fun retry_loop ::
  "env \<Rightarrow> string \<Rightarrow> nat \<Rightarrow> nat \<Rightarrow> exn option \<Rightarrow> world \<Rightarrow> string \<times> world"
where
  "retry_loop env formatted 0 attempt last_exception w =
     (unavailable_document,
      set_ai_status ''offline''
        (''AI service unavailable: ''
         @ (case last_exception of None \<Rightarrow> ''None'' | Some e \<Rightarrow> exn_str e) @ ''.'') w)"
| "retry_loop env formatted (Suc left) attempt last_exception w =
     (case try_attempt env formatted w of
        (Inr document, w') \<Rightarrow> (document, w')
      | (Inl e, w') \<Rightarrow>
          retry_loop env formatted left (Suc attempt) (Some e)
            (sleep (2 ^ attempt) (on_exception e w')))"

definition generate_code_from_prompt ::
  "env \<Rightarrow> string \<Rightarrow> string option \<Rightarrow> string option \<Rightarrow> int \<Rightarrow> world \<Rightarrow> string \<times> world"
where
  "generate_code_from_prompt env prompt api_key model_source retries w =
     (let formatted = formatted_prompt prompt;
          w0 = set_ai_status ''connecting'' ''Connecting to AI service...'' w
      in case configure env api_key of
           Some e \<Rightarrow>
             (unavailable_document,
              log_append [InitFailed e]
                (set_ai_status ''error''
                   ''AI service unavailable (no internet connection or invalid API key).'' w0))
         | None \<Rightarrow> retry_loop env formatted (nat (retries + 1)) 0 None w0)"

section \<open>\<^verbatim>\<open>optimize_prompt\<close>\<close>

definition generic_phrases :: "string list" where
  "generic_phrases =
     [''make a website'', ''build ui'', ''create page'', ''webpage'', ''dashboard'', ''login'',
      ''landing page'']"

definition is_generic :: "string \<Rightarrow> bool" where
  "is_generic prompt \<longleftrightarrow> py_strip (py_lower prompt) \<in> set generic_phrases"

definition modifiers :: "string list" where
  "modifiers =
     [''Use semantic HTML5 structure.'',
      ''Apply responsive CSS (mobile-first).'',
      ''Include clean modular JavaScript with comments.'']"

definition rule_based_enhancement :: "string \<Rightarrow> string" where
  "rule_based_enhancement prompt =
     py_strip prompt @ ''\<newline>\<newline>'' @ py_join ''\<newline>'' modifiers"

definition rewrite_instruction :: "string \<Rightarrow> string" where
  \<open>rewrite_instruction prompt =
     ''Transform the following vague or minimal UI prompt into a clear, detailed, and professional instruction specifically for frontend web development. ''
     @ ''Focus on HTML, CSS, and JavaScript. Include layout details, components to be included, styling considerations, and any interactivity if relevant. ''
     @ ''Keep the improved prompt concise yet specific. Do not add commentary or formatting:\<newline>\<newline>''
     @ ''User Prompt: "'' @ py_strip prompt @ ''"\<newline>\<newline>''
     @ ''Refined Prompt:''\<close>

text \<open>The \<^verbatim>\<open>except\<close> clause of \<^verbatim>\<open>optimize_prompt\<close>.\<close>

definition optimize_failed :: "string \<Rightarrow> exn \<Rightarrow> world \<Rightarrow> string \<times> world" where
  "optimize_failed prompt e w =
     (rule_based_enhancement prompt,
      log_append [OptimizationFailed e] (print (''[optimize_prompt] Exception: '' @ exn_str e) w))"

definition optimize_prompt :: "env \<Rightarrow> string \<Rightarrow> string option \<Rightarrow> world \<Rightarrow> string \<times> world" where
  "optimize_prompt env prompt api_key w =
     (let w0 = print (''[optimize_prompt] Called with: '' @ prompt) w
      in if 20 \<le> length (py_strip prompt) \<and> \<not> is_generic prompt then (prompt, w0)
         else
           (case configure env api_key of
              Some e \<Rightarrow> optimize_failed prompt e w0
            | None \<Rightarrow>
                (let w1 = w0\<lparr>completions := Suc (completions w0)\<rparr>
                 in case generate_content env (completions w0) (rewrite_instruction prompt) of
                      Raise e \<Rightarrow> optimize_failed prompt e w1
                    | Reply text \<Rightarrow>
                        (let improved = py_strip text
                         in if improved = []
                            then (rule_based_enhancement prompt,
                                  print ''[optimize_prompt] Empty response, fallback to rule-based enhancement'' w1)
                            else (improved, w1)))))"

section \<open>Notions used to state the properties\<close>

text \<open>The module as it is loaded: the initial value of \<^verbatim>\<open>ai_status\<close>, nothing done yet.\<close>

definition initial_world :: world where
  "initial_world =
     \<lparr>ai_status = \<lparr>state = ''connecting'', message = ''Connecting to AI service...''\<rparr>,
      log_records = [], stdout = [], slept = [], completions = 0\<rparr>"

text \<open>The states that the status was set to, in order, as the log records them.\<close>

fun status_updates :: "log_record list \<Rightarrow> string list" where
  "status_updates [] = []"
| "status_updates (StatusUpdated st msg # rs) = st # status_updates rs"
| "status_updates (r # rs) = status_updates rs"

text \<open>The status updates made between an earlier world and a later one.\<close>

definition updates_between :: "world \<Rightarrow> world \<Rightarrow> string list" where
  "updates_between w w' = status_updates (drop (length (log_records w)) (log_records w'))"

text \<open>
  The state machine in the words of the specification: connecting is followed by
  generating or error, generating by online, offline or error, and nothing follows
  online, offline and error.
\<close>

definition spec_transition :: "string \<Rightarrow> string \<Rightarrow> bool" where
  "spec_transition a b \<longleftrightarrow>
     (a = ''connecting'' \<and> (b = ''generating'' \<or> b = ''error''))
     \<or> (a = ''generating'' \<and> (b = ''online'' \<or> b = ''offline'' \<or> b = ''error''))"

text \<open>
  The state machine of the retry loop: in addition, a failed attempt is followed by the
  next attempt or by the final offline, an exception raised after the status became
  online sets it to error, and a loop of no attempts goes from connecting to offline.
\<close>

definition call_transition :: "string \<Rightarrow> string \<Rightarrow> bool" where
  "call_transition a b \<longleftrightarrow>
     spec_transition a b
     \<or> (a = ''offline'' \<and> (b = ''generating'' \<or> b = ''offline''))
     \<or> (a = ''error'' \<and> (b = ''generating'' \<or> b = ''offline''))
     \<or> (a = ''online'' \<and> b = ''error'')
     \<or> (a = ''connecting'' \<and> b = ''offline'')"

text \<open>
  The exception that an attempt ends with, if it ends with one, when its completion
  request is the one sent after \<open>n\<close> others: the exception of the remote call, or the
  one raised while the final document is built.
\<close>

definition attempt_failure :: "env \<Rightarrow> string \<Rightarrow> nat \<Rightarrow> exn option" where
  "attempt_failure env formatted n =
     (case generate_content env n formatted of
        Raise e \<Rightarrow> Some e
      | Reply response \<Rightarrow>
          (let parsed = fst (extract_json response)
           in if \<not> truthy parsed then None
              else (case inline_code env parsed of Inl e \<Rightarrow> Some e | Inr final_code \<Rightarrow> None)))"

text \<open>
  Replacement of the first occurrence only, in the words of the specification.
\<close>

fun replace_first :: "string \<Rightarrow> string \<Rightarrow> string \<Rightarrow> string" where
  "replace_first old new [] = (if old = [] then new else [])"
| "replace_first old new (c # cs) =
     (if startswith (c # cs) old then new @ drop (length old) (c # cs)
      else c # replace_first old new cs)"

text \<open>
  A scanner is stable at a text when, if it succeeds there, it reads at least one
  character, the last character it reads is not white space, and it gives the same
  result on every prefix of the text that holds the characters it read.
\<close>

definition stable_at :: "(string \<Rightarrow> ('a \<times> nat) option) \<Rightarrow> string \<Rightarrow> bool" where
  "stable_at f s \<longleftrightarrow>
     (\<forall>v n. f s = Some (v, n) \<longrightarrow>
        0 < n \<and> n \<le> length s \<and> \<not> py_space (s ! (n - 1))
        \<and> (\<forall>m. n \<le> m \<longrightarrow> f (take m s) = Some (v, n)))"

text \<open>Whether \<open>old\<close> occurs in \<open>s\<close> as a substring.\<close>

fun occurs :: "string \<Rightarrow> string \<Rightarrow> bool" where
  "occurs old [] \<longleftrightarrow> old = []"
| "occurs old (c # cs) \<longleftrightarrow> startswith (c # cs) old \<or> occurs old cs"

text \<open>
  Remote services for the examples: one whose initialisation fails, one that raises the
  same exception at every request, and one that gives the same reply to every request.
  No value other than a string is formatted in the examples, so \<open>str_of\<close> is immaterial.
\<close>

definition unreachable_service :: "exn \<Rightarrow> env" where
  "unreachable_service e =
     \<lparr>configure = (\<lambda>key. Some e), generate_content = (\<lambda>n p. Raise e), str_of = (\<lambda>v. [])\<rparr>"

definition failing_service :: "exn \<Rightarrow> env" where
  "failing_service e =
     \<lparr>configure = (\<lambda>key. None), generate_content = (\<lambda>n p. Raise e), str_of = (\<lambda>v. [])\<rparr>"

definition replying_service :: "string \<Rightarrow> env" where
  "replying_service text =
     \<lparr>configure = (\<lambda>key. None), generate_content = (\<lambda>n p. Reply text), str_of = (\<lambda>v. [])\<rparr>"

section \<open>Basic facts\<close>

lemma log_append_fields [simp]:
  "ai_status (log_append rs w) = ai_status w"
  "log_records (log_append rs w) = log_records w @ rs"
  "stdout (log_append rs w) = stdout w"
  "slept (log_append rs w) = slept w"
  "completions (log_append rs w) = completions w"
  by (simp_all add: log_append_def)

lemma set_ai_status_fields [simp]:
  "ai_status (set_ai_status st msg w) = \<lparr>state = st, message = msg\<rparr>"
  "log_records (set_ai_status st msg w) = log_records w @ [StatusUpdated st msg]"
  "stdout (set_ai_status st msg w) = stdout w"
  "slept (set_ai_status st msg w) = slept w"
  "completions (set_ai_status st msg w) = completions w"
  by (simp_all add: set_ai_status_def)

lemma sleep_fields [simp]:
  "ai_status (sleep d w) = ai_status w"
  "log_records (sleep d w) = log_records w"
  "stdout (sleep d w) = stdout w"
  "slept (sleep d w) = slept w @ [d]"
  "completions (sleep d w) = completions w"
  by (simp_all add: sleep_def)

lemma print_fields [simp]:
  "ai_status (print l w) = ai_status w"
  "log_records (print l w) = log_records w"
  "stdout (print l w) = stdout w @ [l]"
  "slept (print l w) = slept w"
  "completions (print l w) = completions w"
  by (simp_all add: print_def)

lemma on_exception_fields [simp]:
  "stdout (on_exception e w) = stdout w"
  "slept (on_exception e w) = slept w"
  "completions (on_exception e w) = completions w"
  by (cases e; simp)+

lemma status_updates_append [simp]:
  "status_updates (xs @ ys) = status_updates xs @ status_updates ys"
  by (induction xs rule: status_updates.induct) simp_all

lemma inline_code_exn: "inline_code env parsed = Inl e \<Longrightarrow> \<exists>m. e = OtherException m"
  by (auto simp: inline_code_def py_get_def attribute_error_def split: json.splits sum.splits option.splits)

lemma extract_json_no_status [simp]: "status_updates (snd (extract_json r)) = []"
  by (simp add: extract_json_def Let_def split: option.splits)

lemma try_attempt_shape:
  "\<exists>evs. log_records (snd (try_attempt env f w)) = log_records w @ evs
     \<and> completions (snd (try_attempt env f w)) = Suc (completions w)
     \<and> slept (snd (try_attempt env f w)) = slept w
     \<and> stdout (snd (try_attempt env f w)) = stdout w
     \<and> state (ai_status (snd (try_attempt env f w))) = last (status_updates evs)
     \<and> (case fst (try_attempt env f w) of
           Inr d \<Rightarrow> status_updates evs = [''generating'', ''error'']
                    \<or> status_updates evs = [''generating'', ''online'']
         | Inl e \<Rightarrow> status_updates evs = [''generating'']
                    \<or> (status_updates evs = [''generating'', ''online''] \<and> (\<exists>m. e = OtherException m)))"
  by (auto simp: try_attempt_def Let_def split: outcome.splits sum.splits dest: inline_code_exn)

lemma on_exception_shape:
  "\<exists>st msg r. log_records (on_exception e w) = log_records w @ [StatusUpdated st msg, r]
      \<and> status_updates [r] = []
      \<and> state (ai_status (on_exception e w)) = st
      \<and> (st = ''offline'' \<or> st = ''error'')
      \<and> ((\<exists>m. e = OtherException m) \<longrightarrow> st = ''error'')"
  by (cases e) auto

lemma retry_loop_shape:
  "\<exists>evs. log_records (snd (retry_loop env f n a l w)) = log_records w @ evs
     \<and> status_updates evs \<noteq> []
     \<and> (hd (status_updates evs) = ''generating'' \<or> hd (status_updates evs) = ''offline'')
     \<and> successively call_transition (status_updates evs)
     \<and> last (status_updates evs) \<in> {''online'', ''offline'', ''error''}
     \<and> state (ai_status (snd (retry_loop env f n a l w))) = last (status_updates evs)"
proof (induction n arbitrary: a l w)
  case 0
  show ?case by (simp add: call_transition_def)
next
  case (Suc n)
  obtain r w' where tw: "try_attempt env f w = (r, w')" by (cases "try_attempt env f w")
  from try_attempt_shape [of env f w] tw obtain evs1 where
    e1: "log_records w' = log_records w @ evs1"
    and s1: "state (ai_status w') = last (status_updates evs1)"
    and c1: "(case r of
           Inr d \<Rightarrow> status_updates evs1 = [''generating'', ''error'']
                    \<or> status_updates evs1 = [''generating'', ''online'']
         | Inl e \<Rightarrow> status_updates evs1 = [''generating'']
                    \<or> (status_updates evs1 = [''generating'', ''online''] \<and> (\<exists>m. e = OtherException m)))"
    by auto
  show ?case
  proof (cases r)
    case (Inr d)
    with tw e1 s1 c1 show ?thesis
      by (auto simp: call_transition_def spec_transition_def)
  next
    case (Inl e)
    from on_exception_shape [of e w'] obtain st msg rr where
      e2: "log_records (on_exception e w') = log_records w' @ [StatusUpdated st msg, rr]"
      and r2: "status_updates [rr] = []"
      and st2: "st = ''offline'' \<or> st = ''error''"
      and o2: "(\<exists>m. e = OtherException m) \<longrightarrow> st = ''error''"
      by blast
    let ?w2 = "sleep (2 ^ a) (on_exception e w')"
    from Suc.IH [of "Suc a" "Some e" ?w2] obtain evs3 where
      e3: "log_records (snd (retry_loop env f n (Suc a) (Some e) ?w2)) = log_records ?w2 @ evs3"
      and n3: "status_updates evs3 \<noteq> []"
      and h3: "hd (status_updates evs3) = ''generating'' \<or> hd (status_updates evs3) = ''offline''"
      and su3: "successively call_transition (status_updates evs3)"
      and l3: "last (status_updates evs3) \<in> {''online'', ''offline'', ''error''}"
      and s3: "state (ai_status (snd (retry_loop env f n (Suc a) (Some e) ?w2))) = last (status_updates evs3)"
      by blast
    have eq: "retry_loop env f (Suc n) a l w = retry_loop env f n (Suc a) (Some e) ?w2"
      using tw Inl by simp
    have logs: "log_records (snd (retry_loop env f (Suc n) a l w))
                  = log_records w @ (evs1 @ [StatusUpdated st msg, rr] @ evs3)"
      using eq e3 e2 e1 by simp
    have us: "status_updates (evs1 @ [StatusUpdated st msg, rr] @ evs3)
                = status_updates evs1 @ st # status_updates evs3"
      using r2 status_updates_append [of "[rr]" evs3] by simp
    have c1': "status_updates evs1 = [''generating'']
                 \<or> (status_updates evs1 = [''generating'', ''online''] \<and> st = ''error'')"
      using c1 Inl o2 by auto
    have succ: "successively call_transition (status_updates evs1 @ st # status_updates evs3)"
      using c1' st2 h3 su3 n3
      by (cases "status_updates evs3")
         (auto simp: successively_Cons call_transition_def spec_transition_def)
    show ?thesis
      apply (rule exI [of _ "evs1 @ [StatusUpdated st msg, rr] @ evs3"])
      using logs us succ c1' n3 l3 s3 eq by auto
  qed
qed

section \<open>Facts about one attempt and about the retry loop\<close>

lemma try_attempt_raise:
  "generate_content env (completions w) f = Raise e \<Longrightarrow> fst (try_attempt env f w) = Inl e"
  by (simp add: try_attempt_def)

lemma try_attempt_falsy:
  "generate_content env (completions w) f = Reply r \<Longrightarrow> \<not> truthy (fst (extract_json r)) \<Longrightarrow>
   fst (try_attempt env f w) = Inr could_not_parse_document
   \<and> ai_status (snd (try_attempt env f w))
       = \<lparr>state = ''error'', message = ''Could not parse AI response.''\<rparr>"
  by (simp add: try_attempt_def Let_def)

lemma try_attempt_truthy:
  "generate_content env (completions w) f = Reply r \<Longrightarrow> truthy (fst (extract_json r)) \<Longrightarrow>
   fst (try_attempt env f w) = inline_code env (fst (extract_json r))
   \<and> ai_status (snd (try_attempt env f w))
       = \<lparr>state = ''online'', message = ''AI service is online.''\<rparr>"
  by (simp add: try_attempt_def Let_def split: sum.splits)

lemma try_attempt_counts:
  "completions (snd (try_attempt env f w)) = Suc (completions w)"
  "slept (snd (try_attempt env f w)) = slept w"
  by (simp_all add: try_attempt_def Let_def split: outcome.splits sum.splits)

lemma try_attempt_failure:
  "fst (try_attempt env f w) = Inl e \<longleftrightarrow> attempt_failure env f (completions w) = Some e"
  by (auto simp: try_attempt_def attempt_failure_def Let_def split: outcome.splits sum.splits)

lemma retry_loop_returns:
  "fst (try_attempt env f w) = Inr d \<Longrightarrow>
   retry_loop env f (Suc n) a l w = (d, snd (try_attempt env f w))"
  by (cases "try_attempt env f w") simp

lemma retry_loop_continues:
  "fst (try_attempt env f w) = Inl e \<Longrightarrow>
   retry_loop env f (Suc n) a l w
     = retry_loop env f n (Suc a) (Some e)
         (sleep (2 ^ a) (on_exception e (snd (try_attempt env f w))))"
  by (cases "try_attempt env f w") simp

declare retry_loop.simps(2) [simp del]

lemma retry_loop_slept:
  "\<exists>ds. slept (snd (retry_loop env f n a l w)) = slept w @ ds"
proof (induction n arbitrary: a l w)
  case 0
  show ?case by simp
next
  case (Suc n)
  show ?case
  proof (cases "fst (try_attempt env f w)")
    case (Inr d)
    then show ?thesis by (simp add: retry_loop_returns try_attempt_counts)
  next
    case (Inl e)
    from Suc.IH [of "Suc a" "Some e" "sleep (2 ^ a) (on_exception e (snd (try_attempt env f w)))"]
    show ?thesis by (auto simp: retry_loop_continues [OF Inl] try_attempt_counts)
  qed
qed

lemma retry_loop_completions:
  "completions (snd (retry_loop env f n a l w)) \<le> completions w + n"
proof (induction n arbitrary: a l w)
  case 0
  show ?case by simp
next
  case (Suc n)
  show ?case
  proof (cases "fst (try_attempt env f w)")
    case (Inr d)
    then show ?thesis by (simp add: retry_loop_returns try_attempt_counts)
  next
    case (Inl e)
    from Suc.IH [of "Suc a" "Some e" "sleep (2 ^ a) (on_exception e (snd (try_attempt env f w)))"]
    show ?thesis by (simp add: retry_loop_continues [OF Inl] try_attempt_counts)
  qed
qed

lemma on_exception_status:
  "state (ai_status (on_exception e w)) = ''offline'' \<or> state (ai_status (on_exception e w)) = ''error''"
  by (cases e) simp_all

lemma retry_loop_exhausted:
  assumes "\<forall>i<n. attempt_failure env f (completions w + i) = Some (e i)"
  shows "fst (retry_loop env f n a l w) = unavailable_document
         \<and> ai_status (snd (retry_loop env f n a l w))
             = \<lparr>state = ''offline'',
                message = ''AI service unavailable: ''
                  @ (if n = 0 then (case l of None \<Rightarrow> ''None'' | Some x \<Rightarrow> exn_str x)
                     else exn_str (e (n - 1)))
                  @ ''.''\<rparr>
         \<and> completions (snd (retry_loop env f n a l w)) = completions w + n
         \<and> slept (snd (retry_loop env f n a l w)) = slept w @ map (\<lambda>i. 2 ^ (a + i)) [0..<n]"
  using assms
proof (induction n arbitrary: a l w e)
  case 0
  show ?case by simp
next
  case (Suc n)
  from Suc.prems have "attempt_failure env f (completions w + 0) = Some (e 0)" by blast
  then have i: "fst (try_attempt env f w) = Inl (e 0)"
    by (simp add: try_attempt_failure)
  let ?w' = "sleep (2 ^ a) (on_exception (e 0) (snd (try_attempt env f w)))"
  have c: "completions ?w' = Suc (completions w)"
    by (simp add: try_attempt_counts)
  have "\<forall>i<n. attempt_failure env f (completions ?w' + i) = Some (e (Suc i))"
    using Suc.prems c by auto
  from Suc.IH [OF this, of "Suc a" "Some (e 0)"]
  have r: "fst (retry_loop env f n (Suc a) (Some (e 0)) ?w') = unavailable_document
       \<and> ai_status (snd (retry_loop env f n (Suc a) (Some (e 0)) ?w'))
           = \<lparr>state = ''offline'',
              message = ''AI service unavailable: ''
                @ (if n = 0 then exn_str (e 0) else exn_str (e (Suc (n - 1))))
                @ ''.''\<rparr>
       \<and> completions (snd (retry_loop env f n (Suc a) (Some (e 0)) ?w')) = completions ?w' + n
       \<and> slept (snd (retry_loop env f n (Suc a) (Some (e 0)) ?w'))
           = slept ?w' @ map (\<lambda>i. 2 ^ (Suc a + i)) [0..<n]"
    by simp
  have m: "map (\<lambda>i. (2::nat) ^ (a + i)) [0..<Suc n]
             = 2 ^ a # map (\<lambda>i. 2 ^ (Suc a + i)) [0..<n]"
    by (simp add: upt_conv_Cons map_Suc_upt [symmetric] del: upt_Suc)
  show ?case
    using r c m by (cases n) (simp_all add: retry_loop_continues [OF i] try_attempt_counts)
qed

section \<open>Facts about strings\<close>


lemma py_strip_Nil [simp]: "py_strip [] = []"
  by (simp add: py_strip_def)









lemma occurs_iff: "occurs old s \<longleftrightarrow> (\<exists>a b. s = a @ old @ b)"
proof (induction s)
  case Nil
  show ?case by auto
next
  case (Cons c cs)
  have 1: "startswith (c # cs) old \<longleftrightarrow> (\<exists>b. c # cs = old @ b)"
    unfolding startswith_def
    by (metis append_eq_conv_conj append_take_drop_id)
  have 2: "(\<exists>a b. c # cs = a @ old @ b)
             \<longleftrightarrow> (\<exists>b. c # cs = old @ b) \<or> (\<exists>a b. cs = a @ old @ b)"
  proof
    assume "\<exists>a b. c # cs = a @ old @ b"
    then obtain a b where e: "c # cs = a @ old @ b" by blast
    show "(\<exists>b. c # cs = old @ b) \<or> (\<exists>a b. cs = a @ old @ b)"
    proof (cases a)
      case Nil
      with e show ?thesis by auto
    next
      case (Cons x a')
      with e have "cs = a' @ old @ b" by simp
      then show ?thesis by blast
    qed
  next
    assume "(\<exists>b. c # cs = old @ b) \<or> (\<exists>a b. cs = a @ old @ b)"
    then show "\<exists>a b. c # cs = a @ old @ b"
    proof
      assume "\<exists>b. c # cs = old @ b"
      then obtain b where "c # cs = [] @ old @ b" by auto
      then show ?thesis by blast
    next
      assume "\<exists>a b. cs = a @ old @ b"
      then obtain a b where "c # cs = (c # a) @ old @ b" by auto
      then show ?thesis by blast
    qed
  qed
  show ?case using Cons.IH 1 2 by simp
qed

lemma py_replace_absent:
  "old \<noteq> [] \<Longrightarrow> \<not> occurs old s \<Longrightarrow> py_replace old new s = s"
  by (induction s) auto

lemma startswith_append:
  "startswith (old @ b) old"
  by (simp add: startswith_def)

lemma py_replace_first:
  assumes "old \<noteq> []" "\<not> occurs old (a @ butlast old)"
  shows "py_replace old new (a @ old @ b) = a @ new @ py_replace old new b"
  using assms(2)
proof (induction a)
  case Nil
  obtain x xs where o: "old = x # xs" using assms(1) by (cases old) auto
  have "py_replace old new (old @ b)
          = new @ py_replace old new (drop (length old) (old @ b))"
    using startswith_append [of old b] by (simp add: o)
  then show ?case by simp
next
  case (Cons c a)
  have n: "\<not> startswith ((c # a) @ butlast old) old" and r: "\<not> occurs old (a @ butlast old)"
    using Cons.prems by auto
  have "(c # a) @ old @ b = ((c # a) @ butlast old) @ (last old # b)"
    using assms(1) by simp
  moreover have "length old \<le> length ((c # a) @ butlast old)" by simp
  ultimately have "take (length old) ((c # a) @ old @ b) = take (length old) ((c # a) @ butlast old)"
    by (metis append_Nil2 diff_is_0_eq take_0 take_append)
  with n have "\<not> startswith (c # a @ old @ b) old"
    by (simp add: startswith_def)
  with assms(1) Cons.IH [OF r] show ?case by simp
qed



section \<open>What an attempt does with the reply\<close>

text \<open>
  C1, as the specification states it, fails: the test is \<^verbatim>\<open>if not parsed\<close>, and the empty
  object is as false as \<^verbatim>\<open>None\<close>. For the reply \<^verbatim>\<open>{}\<close> the extracted value is the empty
  dictionary, not \<^verbatim>\<open>None\<close>, and the call still ends with the status error and the
  could-not-parse document after one completion request.
\<close>

theorem empty_object_counterexample:
  "fst (extract_json ''{}'') = JObj []
   \<and> fst (extract_json ''{}'') \<noteq> JNull
   \<and> fst (generate_code_from_prompt (replying_service ''{}'') ''a clock'' None None 2 initial_world)
       = could_not_parse_document
   \<and> ai_status (snd (generate_code_from_prompt (replying_service ''{}'') ''a clock'' None None 2
                       initial_world))
       = \<lparr>state = ''error'', message = ''Could not parse AI response.''\<rparr>
   \<and> completions (snd (generate_code_from_prompt (replying_service ''{}'') ''a clock'' None None 2
                         initial_world))
       = 1"
proof -
  have e: "extract_json ''{}'' = (JObj [], [])" by code_simp
  show ?thesis
    by (simp add: e generate_code_from_prompt_def replying_service_def initial_world_def
          try_attempt_def numeral_3_eq_3 retry_loop.simps)
qed

text \<open>
  C1, amended. Within an attempt of \<^verbatim>\<open>generate_code_from_prompt\<close> whose completion request
  is answered by a reply text, the call ends with the status error and the
  could-not-parse document, without another request and without sleeping, exactly when
  the value that \<^verbatim>\<open>extract_json\<close> returns is false in Python's sense (\<^verbatim>\<open>None\<close>, false,
  zero, or an empty string, list or dictionary). For every extracted dictionary that is
  not empty and whose \<^verbatim>\<open>html\<close> value is a string (or absent), the call sets the status to
  online and returns the spliced document, where the values of \<^verbatim>\<open>html\<close>, \<^verbatim>\<open>css\<close> and
  \<^verbatim>\<open>js\<close> default to the empty string when the keys are absent.
\<close>

theorem generate_reply_outcome:
  assumes "generate_content env (completions w) formatted = Reply response"
  shows
    "((fst (retry_loop env formatted (Suc left) attempt last_exception w) = could_not_parse_document
       \<and> ai_status (snd (retry_loop env formatted (Suc left) attempt last_exception w))
           = \<lparr>state = ''error'', message = ''Could not parse AI response.''\<rparr>
       \<and> completions (snd (retry_loop env formatted (Suc left) attempt last_exception w))
           = Suc (completions w)
       \<and> slept (snd (retry_loop env formatted (Suc left) attempt last_exception w)) = slept w)
      \<longleftrightarrow> \<not> truthy (fst (extract_json response)))
     \<and> (\<forall>kvs h.
           fst (extract_json response) = JObj kvs \<and> kvs \<noteq> []
           \<and> (case map_of kvs ''html'' of None \<Rightarrow> JStr [] | Some v \<Rightarrow> v) = JStr h
           \<longrightarrow>
           fst (retry_loop env formatted (Suc left) attempt last_exception w)
             = py_replace ''</body>''
                 (''<script>''
                  @ fmt env (case map_of kvs ''js'' of None \<Rightarrow> JStr [] | Some v \<Rightarrow> v)
                  @ ''</script></body>'')
                 (py_replace ''</head>''
                    (''<style>''
                     @ fmt env (case map_of kvs ''css'' of None \<Rightarrow> JStr [] | Some v \<Rightarrow> v)
                     @ ''</style></head>'') h)
           \<and> ai_status (snd (retry_loop env formatted (Suc left) attempt last_exception w))
               = \<lparr>state = ''online'', message = ''AI service is online.''\<rparr>
           \<and> completions (snd (retry_loop env formatted (Suc left) attempt last_exception w))
               = Suc (completions w)
           \<and> slept (snd (retry_loop env formatted (Suc left) attempt last_exception w)) = slept w)"
proof -
  let ?R = "retry_loop env formatted (Suc left) attempt last_exception w"
  let ?p = "fst (extract_json response)"
  have falsy: "fst ?R = could_not_parse_document
       \<and> ai_status (snd ?R) = \<lparr>state = ''error'', message = ''Could not parse AI response.''\<rparr>
       \<and> completions (snd ?R) = Suc (completions w) \<and> slept (snd ?R) = slept w"
    if "\<not> truthy ?p"
    using try_attempt_falsy [OF assms that]
    by (simp add: retry_loop_returns try_attempt_counts)
  have returned: "fst ?R = d
       \<and> ai_status (snd ?R) = \<lparr>state = ''online'', message = ''AI service is online.''\<rparr>
       \<and> completions (snd ?R) = Suc (completions w) \<and> slept (snd ?R) = slept w"
    if "truthy ?p" "inline_code env ?p = Inr d" for d
    using try_attempt_truthy [OF assms that(1)] that(2)
    by (simp add: retry_loop_returns try_attempt_counts)
  have raised: "slept (snd ?R) \<noteq> slept w"
    if "truthy ?p" "inline_code env ?p = Inl e" for e
  proof -
    have i: "fst (try_attempt env formatted w) = Inl e"
      using try_attempt_truthy [OF assms that(1)] that(2) by simp
    from retry_loop_slept
      [of env formatted left "Suc attempt" "Some e"
          "sleep (2 ^ attempt) (on_exception e (snd (try_attempt env formatted w)))"]
    show ?thesis
      by (auto simp: retry_loop_continues [OF i] try_attempt_counts)
  qed
  have first: "(fst ?R = could_not_parse_document
       \<and> ai_status (snd ?R) = \<lparr>state = ''error'', message = ''Could not parse AI response.''\<rparr>
       \<and> completions (snd ?R) = Suc (completions w) \<and> slept (snd ?R) = slept w)
      \<longleftrightarrow> \<not> truthy ?p"
  proof (cases "truthy ?p")
    case False
    with falsy show ?thesis by simp
  next
    case True
    show ?thesis
    proof (cases "inline_code env ?p")
      case (Inl e)
      with raised [OF True] True show ?thesis by simp
    next
      case (Inr d)
      with returned [OF True] True show ?thesis by simp
    qed
  qed
  have second: "fst ?R
             = py_replace ''</body>''
                 (''<script>''
                  @ fmt env (case map_of kvs ''js'' of None \<Rightarrow> JStr [] | Some v \<Rightarrow> v)
                  @ ''</script></body>'')
                 (py_replace ''</head>''
                    (''<style>''
                     @ fmt env (case map_of kvs ''css'' of None \<Rightarrow> JStr [] | Some v \<Rightarrow> v)
                     @ ''</style></head>'') h)
           \<and> ai_status (snd ?R) = \<lparr>state = ''online'', message = ''AI service is online.''\<rparr>
           \<and> completions (snd ?R) = Suc (completions w) \<and> slept (snd ?R) = slept w"
    if "?p = JObj kvs" "kvs \<noteq> []"
       "(case map_of kvs ''html'' of None \<Rightarrow> JStr [] | Some v \<Rightarrow> v) = JStr h" for kvs h
  proof -
    have t: "truthy ?p" using that by simp
    have "inline_code env ?p
            = Inr (py_replace ''</body>''
                 (''<script>''
                  @ fmt env (case map_of kvs ''js'' of None \<Rightarrow> JStr [] | Some v \<Rightarrow> v)
                  @ ''</script></body>'')
                 (py_replace ''</head>''
                    (''<style>''
                     @ fmt env (case map_of kvs ''css'' of None \<Rightarrow> JStr [] | Some v \<Rightarrow> v)
                     @ ''</style></head>'') h))"
      using that by (simp add: inline_code_def py_get_def)
    from returned [OF t this] show ?thesis .
  qed
  from first second show ?thesis by blast
qed

theorem generate_reply_outcome_witness:
  \<open>generate_content (replying_service ''{"html":"<head></head><body></body>","css":"p{}"}'')
       (completions initial_world) (formatted_prompt ''a clock'')
     = Reply ''{"html":"<head></head><body></body>","css":"p{}"}''
   \<and> fst (extract_json ''{"html":"<head></head><body></body>","css":"p{}"}'')
       = JObj [(''html'', JStr ''<head></head><body></body>''), (''css'', JStr ''p{}'')]
   \<and> fst (retry_loop (replying_service ''{"html":"<head></head><body></body>","css":"p{}"}'')
            (formatted_prompt ''a clock'') (Suc 2) 0 None initial_world)
       = ''<head><style>p{}</style></head><body><script></script></body>''
   \<and> ai_status (snd (retry_loop
                       (replying_service ''{"html":"<head></head><body></body>","css":"p{}"}'')
                       (formatted_prompt ''a clock'') (Suc 2) 0 None initial_world))
       = \<lparr>state = ''online'', message = ''AI service is online.''\<rparr>\<close>
proof -
  let ?t = \<open>''{"html":"<head></head><body></body>","css":"p{}"}''\<close>
  let ?kvs = "[(''html'', JStr ''<head></head><body></body>''), (''css'', JStr ''p{}'')]"
  have h: "generate_content (replying_service ?t) (completions initial_world)
             (formatted_prompt ''a clock'') = Reply ?t"
    by (simp add: replying_service_def)
  have x: "fst (extract_json ?t) = JObj ?kvs" by code_simp
  have m: "(case map_of ?kvs ''html'' of None \<Rightarrow> JStr [] | Some v \<Rightarrow> v)
             = JStr ''<head></head><body></body>''"
    by simp
  from generate_reply_outcome [OF h, of 2 0 None]
  have "fst (extract_json ?t) = JObj ?kvs \<and> ?kvs \<noteq> []
          \<and> (case map_of ?kvs ''html'' of None \<Rightarrow> JStr [] | Some v \<Rightarrow> v)
              = JStr ''<head></head><body></body>''
        \<longrightarrow>
        fst (retry_loop (replying_service ?t) (formatted_prompt ''a clock'') (Suc 2) 0 None
               initial_world)
          = py_replace ''</body>''
              (''<script>''
               @ fmt (replying_service ?t)
                   (case map_of ?kvs ''js'' of None \<Rightarrow> JStr [] | Some v \<Rightarrow> v)
               @ ''</script></body>'')
              (py_replace ''</head>''
                 (''<style>''
                  @ fmt (replying_service ?t)
                      (case map_of ?kvs ''css'' of None \<Rightarrow> JStr [] | Some v \<Rightarrow> v)
                  @ ''</style></head>'') ''<head></head><body></body>'')
        \<and> ai_status (snd (retry_loop (replying_service ?t) (formatted_prompt ''a clock'') (Suc 2)
                            0 None initial_world))
            = \<lparr>state = ''online'', message = ''AI service is online.''\<rparr>"
    by blast
  with x m h show ?thesis
    by (simp add: fmt_def startswith_def)
qed

section \<open>How the final document is assembled\<close>

text \<open>
  C2, as the specification states it, fails: \<^verbatim>\<open>str.replace\<close> without a count replaces every
  occurrence, not the first one. For a reply whose \<^verbatim>\<open>html\<close> has a second \<^verbatim>\<open></head>\<close>
  inside the body, the code puts a style block before both of them, while the
  replacement of the first occurrence only would leave the second as it is.
\<close>

theorem duplicated_tag_counterexample:
  \<open>fst (generate_code_from_prompt
          (replying_service ''{"html":"<head></head><body></head></body>"}'')
          ''a clock'' None None 2 initial_world)
     = ''<head><style></style></head><body><style></style></head><script></script></body>''
   \<and> replace_first ''</body>'' ''<script></script></body>''
         (replace_first ''</head>'' ''<style></style></head>'' ''<head></head><body></head></body>'')
       = ''<head><style></style></head><body></head><script></script></body>''
   \<and> fst (generate_code_from_prompt
          (replying_service ''{"html":"<head></head><body></head></body>"}'')
          ''a clock'' None None 2 initial_world)
       \<noteq> replace_first ''</body>'' ''<script></script></body>''
           (replace_first ''</head>'' ''<style></style></head>'' ''<head></head><body></head></body>'')\<close>
  by code_simp

text \<open>
  C2, amended. For every extracted dictionary whose \<^verbatim>\<open>html\<close> value is a string (or
  absent), the final document is built by replacement of every occurrence of a literal
  substring: a style block with the CSS is put before every \<^verbatim>\<open></head>\<close> of the \<^verbatim>\<open>html\<close>
  string, then a script block with the JS before every \<^verbatim>\<open></body>\<close> of the result. That
  \<^verbatim>\<open>py_replace\<close> replaces every occurrence is said by two equations: a string without an
  occurrence is left as it is, and a string is rewritten at its first occurrence and
  then, in the same way, in the rest. For the reply of the specification's example the
  returned string is the one the specification gives.
\<close>

theorem inline_code_replaces_every_occurrence:
  \<open>(\<forall>kvs h.
      (case map_of kvs ''html'' of None \<Rightarrow> JStr [] | Some v \<Rightarrow> v) = JStr h \<longrightarrow>
      inline_code env (JObj kvs)
        = Inr (py_replace ''</body>''
                 (''<script>''
                  @ fmt env (case map_of kvs ''js'' of None \<Rightarrow> JStr [] | Some v \<Rightarrow> v)
                  @ ''</script></body>'')
                 (py_replace ''</head>''
                    (''<style>''
                     @ fmt env (case map_of kvs ''css'' of None \<Rightarrow> JStr [] | Some v \<Rightarrow> v)
                     @ ''</style></head>'') h)))
   \<and> (\<forall>old new s. old \<noteq> [] \<longrightarrow> \<not> occurs old s \<longrightarrow> py_replace old new s = s)
   \<and> (\<forall>old new a b.
         old \<noteq> [] \<longrightarrow> \<not> occurs old (a @ butlast old) \<longrightarrow>
         py_replace old new (a @ old @ b) = a @ new @ py_replace old new b)
   \<and> fst (generate_code_from_prompt
            (replying_service
               ''{"html":"<html><head></head><body></body></html>","css":"body{color:red}","js":"console.log(1)","name":"X"}'')
            ''a clock'' None None 2 initial_world)
       = ''<html><head><style>body{color:red}</style></head><body><script>console.log(1)</script></body></html>''\<close>
proof -
  have a: "inline_code env (JObj kvs)
        = Inr (py_replace ''</body>''
                 (''<script>''
                  @ fmt env (case map_of kvs ''js'' of None \<Rightarrow> JStr [] | Some v \<Rightarrow> v)
                  @ ''</script></body>'')
                 (py_replace ''</head>''
                    (''<style>''
                     @ fmt env (case map_of kvs ''css'' of None \<Rightarrow> JStr [] | Some v \<Rightarrow> v)
                     @ ''</style></head>'') h))"
    if "(case map_of kvs ''html'' of None \<Rightarrow> JStr [] | Some v \<Rightarrow> v) = JStr h" for kvs h
    using that by (simp add: inline_code_def py_get_def)
  have d: \<open>fst (generate_code_from_prompt
            (replying_service
               ''{"html":"<html><head></head><body></body></html>","css":"body{color:red}","js":"console.log(1)","name":"X"}'')
            ''a clock'' None None 2 initial_world)
       = ''<html><head><style>body{color:red}</style></head><body><script>console.log(1)</script></body></html>''\<close>
    by code_simp
  from a py_replace_absent py_replace_first d show ?thesis by blast
qed

theorem inline_code_replaces_every_occurrence_witness:
  \<open>(case map_of [(''html'', JStr ''</head></head>'')] ''html'' of None \<Rightarrow> JStr [] | Some v \<Rightarrow> v)
     = JStr ''</head></head>''
   \<and> inline_code (replying_service []) (JObj [(''html'', JStr ''</head></head>'')])
       = Inr ''<style></style></head><style></style></head>''
   \<and> ''</head>'' \<noteq> []
   \<and> \<not> occurs ''</head>'' (''<p>'' @ butlast ''</head>'')
   \<and> py_replace ''</head>'' ''<b>'' (''<p>'' @ ''</head>'' @ ''</p>'') = ''<p><b></p>''
   \<and> \<not> occurs ''</head>'' ''</p>''\<close>
proof -
  let ?kvs = "[(''html'', JStr ''</head></head>'')]"
  have m: "(case map_of ?kvs ''html'' of None \<Rightarrow> JStr [] | Some v \<Rightarrow> v) = JStr ''</head></head>''"
    by simp
  have o1: "\<not> occurs ''</head>'' (''<p>'' @ butlast ''</head>'')" by code_simp
  have o2: "\<not> occurs ''</head>'' ''</p>''" by code_simp
  have n: "''</head>'' \<noteq> []" by simp
  note t = inline_code_replaces_every_occurrence [of "replying_service []"]
  from t m have 1: "inline_code (replying_service []) (JObj ?kvs)
        = Inr (py_replace ''</body>''
                 (''<script>''
                  @ fmt (replying_service []) (case map_of ?kvs ''js'' of None \<Rightarrow> JStr [] | Some v \<Rightarrow> v)
                  @ ''</script></body>'')
                 (py_replace ''</head>''
                    (''<style>''
                     @ fmt (replying_service []) (case map_of ?kvs ''css'' of None \<Rightarrow> JStr [] | Some v \<Rightarrow> v)
                     @ ''</style></head>'') ''</head></head>''))"
    by blast
  from t n o1 have 2: "py_replace ''</head>'' ''<b>'' (''<p>'' @ ''</head>'' @ ''</p>'')
                        = ''<p>'' @ ''<b>'' @ py_replace ''</head>'' ''<b>'' ''</p>''"
    by blast
  from t n o2 have 3: "py_replace ''</head>'' ''<b>'' ''</p>'' = ''</p>''"
    by blast
  have 4: "py_replace ''</body>'' ''<script></script></body>''
             (py_replace ''</head>'' ''<style></style></head>'' ''</head></head>'')
           = ''<style></style></head><style></style></head>''"
    by code_simp
  show ?thesis
    using m 1 2 3 4 o1 o2 by (simp add: fmt_def)
qed

section \<open>Exhausted retries\<close>

text \<open>
  C3. After the initialisation of the client has succeeded, \<^verbatim>\<open>generate_code_from_prompt\<close>
  sends at most \<^verbatim>\<open>retries + 1\<close> completion requests (none when \<^verbatim>\<open>range(retries + 1)\<close> is
  empty). When every attempt fails, attempt \<open>i\<close> with the exception \<open>e i\<close> raised by the
  remote call or while the document is built, the call sets the status to offline with
  the text of the last exception (the text \<^verbatim>\<open>None\<close> when there was no attempt) and
  returns the document saying that the AI service is currently unavailable. The
  function has a result on every path: each exception of the model is caught by the
  loop and none reaches the caller.
\<close>

theorem generate_retries_exhausted:
  assumes "configure env api_key = None"
  shows
    "completions (snd (generate_code_from_prompt env prompt api_key model_source retries w))
       \<le> completions w + nat (retries + 1)
     \<and> ((\<forall>i < nat (retries + 1).
            attempt_failure env (formatted_prompt prompt) (completions w + i) = Some (e i))
         \<longrightarrow>
         fst (generate_code_from_prompt env prompt api_key model_source retries w)
           = unavailable_document
         \<and> ai_status (snd (generate_code_from_prompt env prompt api_key model_source retries w))
             = \<lparr>state = ''offline'',
                message = ''AI service unavailable: ''
                  @ (if retries + 1 \<le> 0 then ''None'' else exn_str (e (nat retries)))
                  @ ''.''\<rparr>
         \<and> completions (snd (generate_code_from_prompt env prompt api_key model_source retries w))
             = completions w + nat (retries + 1))"
proof -
  let ?w0 = "set_ai_status ''connecting'' ''Connecting to AI service...'' w"
  let ?n = "nat (retries + 1)"
  have g: "generate_code_from_prompt env prompt api_key model_source retries w
             = retry_loop env (formatted_prompt prompt) ?n 0 None ?w0"
    using assms by (simp add: generate_code_from_prompt_def)
  have bound: "completions (snd (retry_loop env (formatted_prompt prompt) ?n 0 None ?w0))
                 \<le> completions w + ?n"
    using retry_loop_completions [of env "formatted_prompt prompt" ?n 0 None ?w0] by simp
  have all: "fst (retry_loop env (formatted_prompt prompt) ?n 0 None ?w0) = unavailable_document
       \<and> ai_status (snd (retry_loop env (formatted_prompt prompt) ?n 0 None ?w0))
           = \<lparr>state = ''offline'',
              message = ''AI service unavailable: ''
                @ (if retries + 1 \<le> 0 then ''None'' else exn_str (e (nat retries)))
                @ ''.''\<rparr>
       \<and> completions (snd (retry_loop env (formatted_prompt prompt) ?n 0 None ?w0))
           = completions w + ?n"
    if f: "\<forall>i < ?n. attempt_failure env (formatted_prompt prompt) (completions w + i) = Some (e i)"
  proof -
    from f have "\<forall>i < ?n. attempt_failure env (formatted_prompt prompt) (completions ?w0 + i)
                   = Some (e i)"
      by simp
    from retry_loop_exhausted [OF this, of 0 None]
    have r: "fst (retry_loop env (formatted_prompt prompt) ?n 0 None ?w0) = unavailable_document
       \<and> ai_status (snd (retry_loop env (formatted_prompt prompt) ?n 0 None ?w0))
           = \<lparr>state = ''offline'',
              message = ''AI service unavailable: ''
                @ (if ?n = 0 then ''None'' else exn_str (e (?n - 1))) @ ''.''\<rparr>
       \<and> completions (snd (retry_loop env (formatted_prompt prompt) ?n 0 None ?w0))
           = completions ?w0 + ?n"
      by simp
    have "(if ?n = 0 then ''None'' else exn_str (e (?n - 1)))
            = (if retries + 1 \<le> 0 then ''None'' else exn_str (e (nat retries)))"
      by (simp add: nat_diff_distrib' nat_add_distrib)
    with r show ?thesis by simp
  qed
  from bound all show ?thesis unfolding g by blast
qed

theorem generate_retries_exhausted_witness:
  "configure (failing_service (RequestException ''timed out'')) None = None
   \<and> attempt_failure (failing_service (RequestException ''timed out''))
         (formatted_prompt ''a clock'') (completions initial_world + 0)
       = Some (RequestException ''timed out'')
   \<and> attempt_failure (failing_service (RequestException ''timed out''))
         (formatted_prompt ''a clock'') (completions initial_world + 1)
       = Some (RequestException ''timed out'')
   \<and> attempt_failure (failing_service (RequestException ''timed out''))
         (formatted_prompt ''a clock'') (completions initial_world + 2)
       = Some (RequestException ''timed out'')
   \<and> fst (generate_code_from_prompt (failing_service (RequestException ''timed out''))
            ''a clock'' None None 2 initial_world)
       = unavailable_document
   \<and> ai_status (snd (generate_code_from_prompt (failing_service (RequestException ''timed out''))
                       ''a clock'' None None 2 initial_world))
       = \<lparr>state = ''offline'', message = ''AI service unavailable: timed out.''\<rparr>
   \<and> completions (snd (generate_code_from_prompt (failing_service (RequestException ''timed out''))
                         ''a clock'' None None 2 initial_world))
       = 3"
proof -
  let ?env = "failing_service (RequestException ''timed out'')"
  have h: "configure ?env None = None"
    by (simp add: failing_service_def)
  have f: "\<forall>i < nat (2 + 1).
             attempt_failure ?env (formatted_prompt ''a clock'') (completions initial_world + i)
             = Some (RequestException ''timed out'')"
    by (simp add: attempt_failure_def failing_service_def)
  from generate_retries_exhausted
         [OF h, of "''a clock''" None 2 initial_world "\<lambda>i. RequestException ''timed out''"] f
  show ?thesis
    using h by (simp add: initial_world_def attempt_failure_def failing_service_def)
qed

section \<open>The delays between attempts\<close>

text \<open>
  C4. The claim is that the delays lie between the attempts only: a call with two
  retries whose three attempts all fail should sleep 1 and 2 time units and not sleep
  after the final attempt. In the code \<^verbatim>\<open>time.sleep(2 ** attempt)\<close> is the last statement
  of the loop body and runs after every failed attempt, the final one included: the
  call sleeps 1, 2 and 4 time units, the last delay after the third and final request
  and before the error document is returned.
\<close>

theorem backoff_after_final_attempt:
  "slept (snd (generate_code_from_prompt (failing_service (RequestException ''timed out''))
                 ''a clock'' None None 2 initial_world))
     = [1, 2, 4]
   \<and> completions (snd (generate_code_from_prompt (failing_service (RequestException ''timed out''))
                         ''a clock'' None None 2 initial_world))
       = 3"
  by (simp add: generate_code_from_prompt_def failing_service_def initial_world_def
        try_attempt_def numeral_3_eq_3 retry_loop.simps)

section \<open>Failure of the initialisation\<close>

text \<open>
  C5. If the initialisation of the remote client fails, \<^verbatim>\<open>generate_code_from_prompt\<close>
  sets the status to error and returns the document saying that the AI service is
  currently unavailable at once: it sends no completion request, makes no attempt and
  never sleeps. The only status updates of the call are connecting and error.
\<close>

theorem generate_init_failure:
  assumes "configure env api_key = Some e"
  shows "generate_code_from_prompt env prompt api_key model_source retries w =
           (unavailable_document,
            log_append [InitFailed e]
              (set_ai_status ''error''
                 ''AI service unavailable (no internet connection or invalid API key).''
                 (set_ai_status ''connecting'' ''Connecting to AI service...'' w)))
         \<and> state (ai_status (snd (generate_code_from_prompt env prompt api_key model_source retries w)))
             = ''error''
         \<and> completions (snd (generate_code_from_prompt env prompt api_key model_source retries w))
             = completions w
         \<and> slept (snd (generate_code_from_prompt env prompt api_key model_source retries w))
             = slept w
         \<and> updates_between w (snd (generate_code_from_prompt env prompt api_key model_source retries w))
             = [''connecting'', ''error'']"
  using assms by (simp add: generate_code_from_prompt_def updates_between_def)

theorem generate_init_failure_witness:
  "configure (unreachable_service (OtherException ''API key not valid'')) None
     = Some (OtherException ''API key not valid'')
   \<and> fst (generate_code_from_prompt (unreachable_service (OtherException ''API key not valid''))
            ''a clock'' None None 2 initial_world)
       = unavailable_document
   \<and> ai_status (snd (generate_code_from_prompt
                       (unreachable_service (OtherException ''API key not valid''))
                       ''a clock'' None None 2 initial_world))
       = \<lparr>state = ''error'',
          message = ''AI service unavailable (no internet connection or invalid API key).''\<rparr>
   \<and> completions (snd (generate_code_from_prompt
                         (unreachable_service (OtherException ''API key not valid''))
                         ''a clock'' None None 2 initial_world))
       = 0"
proof -
  have h: "configure (unreachable_service (OtherException ''API key not valid'')) None
             = Some (OtherException ''API key not valid'')"
    by (simp add: unreachable_service_def)
  show ?thesis
    using h generate_init_failure [OF h, of "''a clock''" None 2 initial_world]
    by (simp add: initial_world_def)
qed

section \<open>JSON inside a code fence\<close>





section \<open>When \<^verbatim>\<open>optimize_prompt\<close> returns its input\<close>





section \<open>The status during a call\<close>

lemma updates_between_append:
  "log_records w' = log_records w @ evs \<Longrightarrow> updates_between w w' = status_updates evs"
  by (simp add: updates_between_def)

lemma generate_updates:
  "\<exists>us. updates_between w (snd (generate_code_from_prompt env prompt api_key model_source retries w))
           = ''connecting'' # us
     \<and> us \<noteq> []
     \<and> successively call_transition (''connecting'' # us)
     \<and> last us \<in> {''online'', ''offline'', ''error''}
     \<and> state (ai_status (snd (generate_code_from_prompt env prompt api_key model_source retries w)))
         = last us"
proof (cases "configure env api_key")
  case (Some e)
  then show ?thesis
    by (simp add: generate_code_from_prompt_def updates_between_def
          call_transition_def spec_transition_def)
next
  case None
  let ?w0 = "set_ai_status ''connecting'' ''Connecting to AI service...'' w"
  let ?r = "retry_loop env (formatted_prompt prompt) (nat (retries + 1)) 0 None ?w0"
  from retry_loop_shape [of env "formatted_prompt prompt" "nat (retries + 1)" 0 None ?w0]
  obtain evs where
    e: "log_records (snd ?r) = log_records ?w0 @ evs"
    and n: "status_updates evs \<noteq> []"
    and h: "hd (status_updates evs) = ''generating'' \<or> hd (status_updates evs) = ''offline''"
    and su: "successively call_transition (status_updates evs)"
    and l: "last (status_updates evs) \<in> {''online'', ''offline'', ''error''}"
    and s: "state (ai_status (snd ?r)) = last (status_updates evs)"
    by blast
  have g: "generate_code_from_prompt env prompt api_key model_source retries w = ?r"
    using None by (simp add: generate_code_from_prompt_def)
  have "log_records (snd ?r)
          = log_records w @ (StatusUpdated ''connecting'' ''Connecting to AI service...'' # evs)"
    using e by simp
  then have u: "updates_between w (snd ?r) = ''connecting'' # status_updates evs"
    by (simp add: updates_between_append)
  have "successively call_transition (''connecting'' # status_updates evs)"
    using n h su
    by (cases "status_updates evs")
       (auto simp: successively_Cons call_transition_def spec_transition_def)
  with g u n l s show ?thesis by auto
qed

text \<open>
  C8, as the specification states it, fails: after a failed attempt the loop sets the
  status to generating again, so offline is followed by generating within one call, and
  the statement after the loop sets offline once more. With one retry and a service
  whose every request fails with a network error, the updates of the call are
  connecting, generating, offline, generating, offline, offline.
\<close>

theorem status_machine_counterexample:
  "updates_between initial_world
     (snd (generate_code_from_prompt (failing_service (RequestException ''timed out''))
             ''a clock'' None None 1 initial_world))
     = [''connecting'', ''generating'', ''offline'', ''generating'', ''offline'', ''offline'']
   \<and> \<not> successively spec_transition
         (updates_between initial_world
            (snd (generate_code_from_prompt (failing_service (RequestException ''timed out''))
                    ''a clock'' None None 1 initial_world)))"
proof -
  have u: "updates_between initial_world
       (snd (generate_code_from_prompt (failing_service (RequestException ''timed out''))
               ''a clock'' None None 1 initial_world))
       = [''connecting'', ''generating'', ''offline'', ''generating'', ''offline'', ''offline'']"
    by (simp add: generate_code_from_prompt_def failing_service_def initial_world_def
          try_attempt_def updates_between_def numeral_2_eq_2 retry_loop.simps)
  show ?thesis
    unfolding u by (simp add: spec_transition_def)
qed

text \<open>
  C8, amended. Every update of the status during one call of
  \<^verbatim>\<open>generate_code_from_prompt\<close> follows the state machine of the retry loop: connecting is
  followed by generating or error (or by offline when the loop makes no attempt),
  generating by online, offline or error, offline and error by generating (the next
  attempt) or by the final offline, and online by error (an exception raised after the
  status became online). The first update of a call is connecting, the last one is
  online, offline or error, and it is the status that the call leaves behind.
\<close>

theorem generate_status_machine:
  "hd (updates_between w (snd (generate_code_from_prompt env prompt api_key model_source retries w)))
     = ''connecting''
   \<and> successively call_transition
       (updates_between w (snd (generate_code_from_prompt env prompt api_key model_source retries w)))
   \<and> last (updates_between w (snd (generate_code_from_prompt env prompt api_key model_source retries w)))
       \<in> {''online'', ''offline'', ''error''}
   \<and> state (ai_status (snd (generate_code_from_prompt env prompt api_key model_source retries w)))
       = last (updates_between w
                 (snd (generate_code_from_prompt env prompt api_key model_source retries w)))"
proof -
  from generate_updates [of w env prompt api_key model_source retries]
  obtain us where
    "updates_between w (snd (generate_code_from_prompt env prompt api_key model_source retries w))
       = ''connecting'' # us"
    "us \<noteq> []"
    "successively call_transition (''connecting'' # us)"
    "last us \<in> {''online'', ''offline'', ''error''}"
    "state (ai_status (snd (generate_code_from_prompt env prompt api_key model_source retries w)))
       = last us"
    by blast
  then show ?thesis by simp
qed

section \<open>The status outside \<^verbatim>\<open>generate_code_from_prompt\<close>\<close>

text \<open>
  C9. For every prompt, every credential and every behaviour of the remote service,
  \<^verbatim>\<open>optimize_prompt\<close> leaves \<^verbatim>\<open>ai_status\<close> as it was and makes no status update, whether it
  returns the prompt, the remote rewrite or the result of \<^verbatim>\<open>rule_based_enhancement\<close>
  (which, like \<^verbatim>\<open>is_generic\<close> and \<^verbatim>\<open>extract_json\<close>, has no access to the status at all),
  while every call of \<^verbatim>\<open>generate_code_from_prompt\<close> updates it.
\<close>

theorem optimize_prompt_keeps_status:
  "ai_status (snd (optimize_prompt env prompt api_key w)) = ai_status w
   \<and> updates_between w (snd (optimize_prompt env prompt api_key w)) = []
   \<and> status_updates (snd (extract_json response)) = []
   \<and> updates_between w (snd (generate_code_from_prompt env prompt api_key model_source retries w))
       \<noteq> []"
proof -
  have a: "ai_status (snd (optimize_prompt env prompt api_key w)) = ai_status w"
    by (simp add: optimize_prompt_def optimize_failed_def Let_def
          split: option.splits outcome.splits)
  have b: "updates_between w (snd (optimize_prompt env prompt api_key w)) = []"
    by (simp add: optimize_prompt_def optimize_failed_def Let_def updates_between_def
          split: option.splits outcome.splits)
  from generate_updates [of w env prompt api_key model_source retries]
  have c: "updates_between w
             (snd (generate_code_from_prompt env prompt api_key model_source retries w)) \<noteq> []"
    by auto
  from a b c show ?thesis by simp
qed

section \<open>Values that are not objects\<close>

text \<open>
  C10. Whenever the cleaned response is valid JSON, \<^verbatim>\<open>extract_json\<close> returns the decoded
  value whatever its type: for a list, a number, a string or a boolean it returns that
  value, which is neither a dictionary nor \<^verbatim>\<open>None\<close>. For the text \<^verbatim>\<open>null\<close> the decoder
  succeeds and \<^verbatim>\<open>extract_json\<close> returns \<^verbatim>\<open>None\<close>, the same result as for the text
  \<^verbatim>\<open>oops\<close>, which the decoder rejects.
\<close>

theorem extract_json_any_value:
  "(\<forall>s v. json_loads (clean_response s) = Some v \<longrightarrow> v \<noteq> JNull \<longrightarrow> (\<forall>kvs. v \<noteq> JObj kvs)
      \<longrightarrow> fst (extract_json s) = v
          \<and> fst (extract_json s) \<noteq> JNull \<and> (\<forall>kvs. fst (extract_json s) \<noteq> JObj kvs))
   \<and> json_loads (clean_response ''null'') = Some JNull
   \<and> fst (extract_json ''null'') = JNull
   \<and> json_loads (clean_response ''oops'') = None
   \<and> fst (extract_json ''oops'') = JNull"
proof -
  have a: "\<And>s v. json_loads (clean_response s) = Some v \<Longrightarrow> fst (extract_json s) = v"
    by (simp add: extract_json_def)
  have b: "json_loads (clean_response ''null'') = Some JNull" by code_simp
  have c: "fst (extract_json ''null'') = JNull" by code_simp
  have d: "json_loads (clean_response ''oops'') = None" by code_simp
  have e: "fst (extract_json ''oops'') = JNull" by code_simp
  from a b c d e show ?thesis by simp
qed

theorem extract_json_any_value_witness:
  "json_loads (clean_response ''[1, 2]'') = Some (JArr [JInt 1, JInt 2])
   \<and> JArr [JInt 1, JInt 2] \<noteq> JNull
   \<and> (\<forall>kvs. JArr [JInt 1, JInt 2] \<noteq> JObj kvs)
   \<and> fst (extract_json ''[1, 2]'') = JArr [JInt 1, JInt 2]"
proof -
  have h: "json_loads (clean_response ''[1, 2]'') = Some (JArr [JInt 1, JInt 2])"
    by code_simp
  from extract_json_any_value
  have "json_loads (clean_response ''[1, 2]'') = Some (JArr [JInt 1, JInt 2])
          \<longrightarrow> JArr [JInt 1, JInt 2] \<noteq> JNull \<longrightarrow> (\<forall>kvs. JArr [JInt 1, JInt 2] \<noteq> JObj kvs)
          \<longrightarrow> fst (extract_json ''[1, 2]'') = JArr [JInt 1, JInt 2]
              \<and> fst (extract_json ''[1, 2]'') \<noteq> JNull
              \<and> (\<forall>kvs. fst (extract_json ''[1, 2]'') \<noteq> JObj kvs)"
    by blast
  with h show ?thesis by simp
qed

end
